theory Spec2Isabelle
  imports Complex_Main
begin

section \<open>Python values and errors\<close>

text \<open>
  The exceptions that the modelled code of \<^verbatim>\<open>compressure/main.py\<close> can raise.
  \<^verbatim>\<open>AttributeError\<close>, \<^verbatim>\<open>ZeroDivisionError\<close>, \<^verbatim>\<open>IndexError\<close>, \<^verbatim>\<open>OverflowError\<close> and
  \<^verbatim>\<open>ValueError\<close> are raised by the interpreter, by \<^verbatim>\<open>collections.deque\<close> or by numpy, the
  others by explicit \<^verbatim>\<open>raise\<close> statements.
  \<^verbatim>\<open>ExternalToolError\<close> stands for whatever an external collaborator
  (\<^verbatim>\<open>transcode_video\<close>, \<^verbatim>\<open>slice_video\<close>) raises.
\<close>

datatype error =
    AttributeError
  | ZeroDivisionError
  | IndexError
  | OverflowError
  | ValueError
  | NotImplementedError
  | EncoderSelectionError string
  | MalformedConfigurationError nat
  | UnrecognizedEncoderConfigError string string
  | ExternalToolError

text \<open>Python's \<^verbatim>\<open>int(x)\<close> on a non-integral number truncates toward zero.\<close>

definition py_int :: "'a::floor_ceiling \<Rightarrow> int" where
  "py_int x = (if x < 0 then - \<lfloor>- x\<rfloor> else \<lfloor>x\<rfloor>)"

section \<open>\<^verbatim>\<open>collections.deque\<close>\<close>

text \<open>\<^verbatim>\<open>d[0]\<close> raises \<^verbatim>\<open>IndexError\<close> on an empty deque.\<close>

definition deque_head :: "'a list \<Rightarrow> error + 'a" where
  "deque_head xs = (case xs of [] \<Rightarrow> Inl IndexError | x # _ \<Rightarrow> Inr x)"

text \<open>
  The content of a deque after \<^verbatim>\<open>d.rotate(n)\<close>: moved \<open>n\<close> steps to the right (the last element
  becomes the first), to the left when \<open>n\<close> is negative; \<open>n\<close> is taken modulo the length and
  an empty deque is left alone.  \<^const>\<open>rotate\<close> of the list library rotates to the left.
\<close>

definition rotated :: "int \<Rightarrow> 'a list \<Rightarrow> 'a list" where
  "rotated n xs =
     (if xs = [] then [] else rotate (nat ((- n) mod int (length xs))) xs)"

text \<open>
  \<^verbatim>\<open>d.rotate(n)\<close> itself.  The method is written in C and converts its argument to a
  \<^verbatim>\<open>Py_ssize_t\<close> (64 bits on the platforms of today) before it looks at the deque: an
  argument below \<open>-2\<^sup>6\<^sup>3\<close> or above \<open>2\<^sup>6\<^sup>3 - 1\<close> raises \<^verbatim>\<open>OverflowError\<close>, also on an empty
  deque, and the deque is left as it was.
\<close>

definition deque_rotate :: "int \<Rightarrow> 'a list \<Rightarrow> error + 'a list" where
  "deque_rotate n xs =
     (if n < - (2 ^ 63) \<or> 2 ^ 63 \<le> n then Inl OverflowError else Inr (rotated n xs))"

section \<open>The reversible slice buffer\<close>

text \<open>
  A \<^verbatim>\<open>VideoSlicer\<close> (class of \<^verbatim>\<open>compressure.valve\<close>): the three arguments of its constructor
  and the list of slices, which is all that the buffer reads besides the superframe size.
\<close>

record 'a VideoSlicer =
  slicer_fpath_in :: string
  slicer_superframe_size :: int
  slicer_workdir :: string
  slices :: "'a list"

text \<open>
  The instance attributes of \<^verbatim>\<open>VideoSliceBufferReversible\<close>.  The methods \<^verbatim>\<open>step\<close> and
  \<^verbatim>\<open>accelerate\<close> read \<^verbatim>\<open>self.superframe_size\<close>, an attribute that no method of the class
  assigns: it exists only when a caller has set it on the instance.  The field
  \<open>superframe_size\<close> is \<open>None\<close> while the attribute is absent, and reading it then raises
  \<^verbatim>\<open>AttributeError\<close>.
\<close>

record 'a VideoSliceBufferReversible =
  buffer_forward :: "'a list"
  buffer_backward :: "'a list"
  forward :: bool
  index :: int
  velocity_numerator :: int
  velocity_denominator :: int
  superframe_size :: "int option"

text \<open>The result of a method: the value returned or the exception raised, and the
  instance as the call leaves it.\<close>

type_synonym ('r, 'a) outcome = "(error + 'r) \<times> 'a VideoSliceBufferReversible"

definition init :: "'a VideoSlicer \<Rightarrow> 'a VideoSlicer \<Rightarrow> 'a VideoSliceBufferReversible" where
  "init slicer_forward slicer_backward =
     \<lparr> buffer_forward = slices slicer_forward,
       buffer_backward = rev (slices slicer_backward),
       forward = True,
       index = 0,
       velocity_numerator = slicer_superframe_size slicer_forward,
       velocity_denominator = slicer_superframe_size slicer_forward,
       superframe_size = None \<rparr>"

text \<open>The property \<^verbatim>\<open>state\<close>.\<close>

definition state :: "'a VideoSliceBufferReversible \<Rightarrow> error + 'a" where
  "state s = (if forward s then deque_head (buffer_forward s)
              else deque_head (buffer_backward s))"

text \<open>
  The property \<^verbatim>\<open>velocity\<close>: the true division of two integers.  The quotient is kept as
  an exact rational; Python rounds it to a float, which has the same sign and is
  the same number whenever the quotient is an integer of moderate size.
\<close>

definition velocity :: "'a VideoSliceBufferReversible \<Rightarrow> error + rat" where
  "velocity s =
     (if velocity_denominator s = 0 then Inl ZeroDivisionError
      else Inr (of_int (velocity_numerator s) / of_int (velocity_denominator s)))"

text \<open>The setter of \<^verbatim>\<open>velocity\<close>: the direction first, from the velocity before the
  assignment, then the numerator.\<close>

definition set_velocity :: "rat \<Rightarrow> 'a VideoSliceBufferReversible \<Rightarrow> (unit, 'a) outcome" where
  "set_velocity v s =
     (case velocity s of
        Inl e \<Rightarrow> (Inl e, s)
      | Inr old \<Rightarrow>
          (Inr (),
           s\<lparr> forward := (if forward s then old \<ge> 0 else old > 0),
              velocity_numerator := py_int (v * of_int (velocity_denominator s)) \<rparr>))"

text \<open>The first part of \<^verbatim>\<open>step\<close>: the number of moves.\<close>

definition step_n_moves :: "int option \<Rightarrow> 'a VideoSliceBufferReversible \<Rightarrow> (int, 'a) outcome" where
  "step_n_moves to s =
     (case to of
        Some t \<Rightarrow>
          (let n_moves = t - index s
           in case set_velocity (if n_moves < 0 then - 1 else if n_moves > 0 then 1 else 0) s of
                (Inl e, s') \<Rightarrow> (Inl e, s')
              | (Inr _, s') \<Rightarrow> (Inr n_moves, s'))
      | None \<Rightarrow>
          (case superframe_size s of
             None \<Rightarrow> (Inl AttributeError, s)
           | Some sz \<Rightarrow>
               (case velocity s of
                  Inl e \<Rightarrow> (Inl e, s)
                | Inr v \<Rightarrow> (Inr (py_int (of_int sz * v)), s))))"

text \<open>The last part of \<^verbatim>\<open>step\<close>: the slice it returns.\<close>

definition step_state :: "'a VideoSliceBufferReversible \<Rightarrow> error + 'a" where
  "step_state s =
     (case velocity s of
        Inl e \<Rightarrow> Inl e
      | Inr v \<Rightarrow>
          if forward s
          then (if v \<ge> 0 then deque_head (buffer_forward s) else deque_head (buffer_backward s))
          else (if v > 0 then deque_head (buffer_forward s) else deque_head (buffer_backward s)))"

text \<open>\<^verbatim>\<open>step\<close>: the number of moves, the two rotations (the first one that raises ends the
  call, with the velocity already set and the index not yet updated), the index, the
  slice.\<close>

definition step :: "int option \<Rightarrow> 'a VideoSliceBufferReversible \<Rightarrow> ('a, 'a) outcome" where
  "step to s =
     (case step_n_moves to s of
        (Inl e, s') \<Rightarrow> (Inl e, s')
      | (Inr n_moves, s') \<Rightarrow>
          (case deque_rotate (- n_moves) (buffer_forward s') of
             Inl e \<Rightarrow> (Inl e, s')
           | Inr bf \<Rightarrow>
               (let s1 = s'\<lparr> buffer_forward := bf \<rparr>
                in case deque_rotate (- n_moves) (buffer_backward s1) of
                     Inl e \<Rightarrow> (Inl e, s1)
                   | Inr bb \<Rightarrow>
                       (let s'' = s1\<lparr> buffer_backward := bb, index := index s1 + n_moves \<rparr>
                        in (step_state s'', s'')))))"

definition accelerate :: "rat \<Rightarrow> 'a VideoSliceBufferReversible \<Rightarrow> ('a, 'a) outcome" where
  "accelerate degree s =
     (case velocity s of
        Inl e \<Rightarrow> (Inl e, s)
      | Inr v \<Rightarrow>
          (case superframe_size s of
             None \<Rightarrow> (Inl AttributeError, s)
           | Some sz \<Rightarrow>
               if sz = 0 then (Inl ZeroDivisionError, s)
               else (case set_velocity (v + degree / of_int sz) s of
                       (Inl e, s') \<Rightarrow> (Inl e, s')
                     | (Inr _, s') \<Rightarrow> step None s')))"

definition len :: "'a VideoSliceBufferReversible \<Rightarrow> nat" where
  "len s = length (buffer_forward s)"

text \<open>The method \<^verbatim>\<open>CompressureSystem.init_buffer\<close>: it calls the constructor, which has no
  \<^verbatim>\<open>raise\<close> statement and no check of its arguments, and returns the buffer.\<close>

definition init_buffer ::
  "'a VideoSlicer \<Rightarrow> 'a VideoSlicer \<Rightarrow> error + 'a VideoSliceBufferReversible" where
  "init_buffer slicer_forward slicer_backward = Inr (init slicer_forward slicer_backward)"

subsection \<open>The vocabulary of the specification\<close>

datatype direction = Forward | Backward

definition direction :: "'a VideoSliceBufferReversible \<Rightarrow> direction" where
  "direction s = (if forward s then Forward else Backward)"


section \<open>The timeline generator\<close>

text \<open>
  \<^verbatim>\<open>generate_timeline_function\<close> computes on numpy arrays of 64-bit floats and converts them
  to 64-bit integers.  What numpy does there (the rounding of each operation, the
  non-finite floats, the conversion of a float that no 64-bit integer holds) is not written
  in the sources, so the operations that the function applies are parameters, on a type
  \<open>'f\<close> of floats:
  \<^item> \<open>np_sin_linspace frequency n\<close> is
    \<^verbatim>\<open>np.sin(np.linspace(0, 2 * np.pi * frequency, n))\<close>, an array or an exception
    (\<^verbatim>\<open>ValueError\<close> for a negative \<open>n\<close>);
  \<^item> \<open>np_times_int xs k\<close> is \<^verbatim>\<open>xs * k\<close> for an array \<open>xs\<close> and a Python integer \<open>k\<close>, an array
    or an exception (\<^verbatim>\<open>OverflowError\<close> for a \<open>k\<close> that no float holds);
  \<^item> \<open>np_negative x\<close> is \<^verbatim>\<open>x < 0\<close> and \<open>np_negate x\<close> is \<^verbatim>\<open>-x\<close>, on one element;
  \<^item> \<open>np_astype_int x\<close> is what \<^verbatim>\<open>astype(int)\<close> makes of one element.
\<close>

record 'f numpy =
  np_sin_linspace :: "'f \<Rightarrow> int \<Rightarrow> error + 'f list"
  np_times_int :: "'f list \<Rightarrow> int \<Rightarrow> error + 'f list"
  np_negative :: "'f \<Rightarrow> bool"
  np_negate :: "'f \<Rightarrow> 'f"
  np_astype_int :: "'f \<Rightarrow> int"

text \<open>
  The body shared by the two branches, which differ in the factor: the sine samples times
  the factor, then \<^verbatim>\<open>locations[locations < 0] = -locations[locations < 0]\<close>, then
  \<^verbatim>\<open>astype(int)\<close>.
\<close>

definition locations :: "'f numpy \<Rightarrow> 'f \<Rightarrow> int \<Rightarrow> int \<Rightarrow> error + int list" where
  "locations np frequency n_superframes factor =
     (case np_sin_linspace np frequency n_superframes of
        Inl e \<Rightarrow> Inl e
      | Inr samples \<Rightarrow>
          (case np_times_int np samples factor of
             Inl e \<Rightarrow> Inl e
           | Inr scaled \<Rightarrow>
               Inr (map (\<lambda>x. np_astype_int np (if np_negative np x then np_negate np x else x))
                      scaled)))"

definition generate_timeline_function ::
  "'f numpy \<Rightarrow> int \<Rightarrow> int \<Rightarrow> int \<Rightarrow> string \<Rightarrow> 'f \<Rightarrow> error + int list" where
  "generate_timeline_function np superframe_sz len_lvb n_superframes category frequency =
     (if category = ''sinusoid''
      then locations np frequency n_superframes (len_lvb - 1)
      else if category = ''compound-sinusoid''
      then locations np frequency n_superframes len_lvb
      else Inl NotImplementedError)"

section \<open>The encoder configuration\<close>

text \<open>
  A value held by an option dictionary: \<^verbatim>\<open>None\<close>, a string (every user-specified value is
  one), or any other object.
\<close>

datatype 'v pyval = PyNone | PyStr string | PyObj 'v

type_synonym 'v config = "string \<rightharpoonup> 'v pyval"

text \<open>\<^verbatim>\<open>d.get(key)\<close>: \<^verbatim>\<open>None\<close> for a missing key.\<close>

definition dict_get :: "'v config \<Rightarrow> string \<Rightarrow> 'v pyval" where
  "dict_get d key = (case d key of None \<Rightarrow> PyNone | Some v \<Rightarrow> v)"

text \<open>
  The loop of \<^verbatim>\<open>construct_encoder_config\<close> over the positions \<open>0, 2, 4, ...\<close> of the
  user-specified list, on the dictionary that it updates; \<open>n\<close> is the length of the whole
  list.  A key without a value raises before the key is looked at.
\<close>

fun override_loop ::
  "string \<Rightarrow> nat \<Rightarrow> string list \<Rightarrow> 'v config \<Rightarrow> (error + unit) \<times> 'v config" where
  "override_loop encoder n [] d = (Inr (), d)"
| "override_loop encoder n [key] d = (Inl (MalformedConfigurationError n), d)"
| "override_loop encoder n (key # val # rest) d =
     (if dict_get d key = PyNone
      then (Inl (UnrecognizedEncoderConfigError encoder key), d)
      else override_loop encoder n rest (d(key \<mapsto> PyStr val)))"

text \<open>
  \<^verbatim>\<open>VideoCompressionDefaults.encoder_config_options\<close> is a class attribute of
  \<^verbatim>\<open>compressure.compression\<close>, a dictionary of dictionaries shared by the whole process; its
  content is a parameter.  \<^verbatim>\<open>construct_encoder_config\<close> binds \<^verbatim>\<open>encoder_config\<close> to the
  dictionary stored there, not to a copy, so each assignment changes the stored
  dictionary: the function returns the dictionary (or raises) together with the table
  as it leaves it.
\<close>

definition construct_encoder_config ::
  "string \<Rightarrow> string list \<Rightarrow> (string \<rightharpoonup> 'v config) \<Rightarrow>
     (error + 'v config) \<times> (string \<rightharpoonup> 'v config)" where
  "construct_encoder_config encoder user_specified_config encoder_config_options =
     (case encoder_config_options encoder of
        None \<Rightarrow> (Inl (EncoderSelectionError encoder), encoder_config_options)
      | Some encoder_config \<Rightarrow>
          (case override_loop encoder (length user_specified_config) user_specified_config
                  encoder_config of
             (Inl e, d) \<Rightarrow> (Inl e, encoder_config_options(encoder \<mapsto> d))
           | (Inr _, d) \<Rightarrow> (Inr d, encoder_config_options(encoder \<mapsto> d))))"

text \<open>The key/value pairs of a user-specified list, in order.\<close>

fun pairs :: "string list \<Rightarrow> (string \<times> string) list" where
  "pairs (key # val # rest) = (key, val) # pairs rest"
| "pairs _ = []"

text \<open>The overrides that such a list asks for, as a dictionary: for each key the value of
  its last pair.\<close>

definition overrides :: "string list \<Rightarrow> 'v config" where
  "overrides cfg = map_option PyStr \<circ> map_of (rev (pairs cfg))"

section \<open>The persistence cache\<close>

text \<open>A \<^verbatim>\<open>SingleVideoCompression\<close> (class of \<^verbatim>\<open>compressure.compression\<close>): the arguments
  of its constructor, which are the configuration of a transcode.\<close>

record 'c SingleVideoCompression =
  fpath_in :: string
  workdir :: string
  gop_size :: int
  encoder :: string
  encoder_config :: 'c
















section \<open>Example inputs\<close>

text \<open>A slicer with a given superframe size and given slices.\<close>

definition slicer_of :: "int \<Rightarrow> 'a list \<Rightarrow> 'a VideoSlicer" where
  "slicer_of sz xs =
     \<lparr> slicer_fpath_in = ''in.avi'', slicer_superframe_size = sz,
       slicer_workdir = ''slices'', slices = xs \<rparr>"

text \<open>A table of default options with one encoder.\<close>

definition example_options :: "string \<rightharpoonup> unit config" where
  "example_options =
     [''libx264'' \<mapsto> [''preset'' \<mapsto> PyStr ''medium'', ''crf'' \<mapsto> PyStr ''23'']]"







text \<open>
  An instance of the numpy operations on exact integers, sampling the sine at the quarter
  periods, where it is 0, 1, 0 and -1.
\<close>

definition quarter_period_numpy :: "int numpy" where
  "quarter_period_numpy =
     \<lparr> np_sin_linspace = (\<lambda>frequency n. if n < 0 then Inl ValueError
                                       else Inr (take (nat n) [0, 1, 0, - 1, 0])),
       np_times_int = (\<lambda>xs k. Inr (map (\<lambda>x. x * k) xs)),
       np_negative = (\<lambda>x. x < 0),
       np_negate = (\<lambda>x. - x),
       np_astype_int = (\<lambda>x. x) \<rparr>"

section \<open>Properties of the helper functions\<close>



lemma rotated_left_one: "rotated (- 1) (x # xs) = xs @ [x]"
proof (cases xs)
  case Nil
  then show ?thesis by (simp add: rotated_def)
next
  case (Cons y ys)
  then have "(1::int) mod (2 + int (length ys)) = 1" by simp
  with Cons show ?thesis by (simp add: rotated_def)
qed

lemma rotated_length: "length (rotated n xs) = length xs"
  by (simp add: rotated_def)

lemma rotated_set: "set (rotated n xs) = set xs"
  by (simp add: rotated_def)



section \<open>The reversible slice buffer: velocity and direction\<close>





text \<open>
  Claim C1.  The scenario of the claim: a buffer constructed over slicers of superframe
  size 6, at velocity 1 and index 0, receives \<^verbatim>\<open>accelerate(degree=1)\<close>.  The call reads
  \<^verbatim>\<open>self.superframe_size\<close>, which the constructor has not assigned, and raises
  \<^verbatim>\<open>AttributeError\<close> before anything is changed: the velocity stays 1 and the index stays
  0, not 7.
\<close>

theorem accelerate_after_init_raises:
  "velocity (init (slicer_of 6 [0::nat, 1, 2, 3, 4, 5, 6, 7])
                  (slicer_of 6 [0, 1, 2, 3, 4, 5, 6, 7])) = Inr 1
   \<and> index (init (slicer_of 6 [0::nat, 1, 2, 3, 4, 5, 6, 7])
                 (slicer_of 6 [0, 1, 2, 3, 4, 5, 6, 7])) = 0
   \<and> accelerate 1 (init (slicer_of 6 [0::nat, 1, 2, 3, 4, 5, 6, 7])
                        (slicer_of 6 [0, 1, 2, 3, 4, 5, 6, 7]))
     = (Inl AttributeError,
        \<lparr> buffer_forward = [0, 1, 2, 3, 4, 5, 6, 7],
          buffer_backward = [7, 6, 5, 4, 3, 2, 1, 0],
          forward = True, index = 0, velocity_numerator = 6, velocity_denominator = 6,
          superframe_size = None \<rparr>)"
  by (simp add: accelerate_def init_def velocity_def slicer_of_def)

text \<open>
  Were the attribute present with the value 6, the same call would do what the claim
  says: the numerator becomes 7 and the buffer moves to index 7.
\<close>

lemma accelerate_with_attribute:
  "accelerate 1 ((init (slicer_of 6 [0::nat, 1, 2, 3, 4, 5, 6, 7])
                       (slicer_of 6 [0, 1, 2, 3, 4, 5, 6, 7]))\<lparr> superframe_size := Some 6 \<rparr>)
     = (Inr 7,
        \<lparr> buffer_forward = [7, 0, 1, 2, 3, 4, 5, 6],
          buffer_backward = [0, 7, 6, 5, 4, 3, 2, 1],
          forward = True, index = 7, velocity_numerator = 7, velocity_denominator = 6,
          superframe_size = Some 6 \<rparr>)"
  by (simp add: accelerate_def init_def velocity_def slicer_of_def set_velocity_def py_int_def
      step_def step_n_moves_def step_state_def deque_rotate_def rotated_def deque_head_def Let_def
      eval_nat_numeral)

text \<open>
  Claim C2, as stated, fails: slice sets of lengths 1 and 2 construct a buffer whose two
  queues have lengths 1 and 2; nothing is raised.
\<close>

theorem init_buffer_length_mismatch_accepted:
  "length (slices (slicer_of 6 [0::nat])) \<noteq> length (slices (slicer_of 6 [0::nat, 1]))
   \<and> init_buffer (slicer_of 6 [0::nat]) (slicer_of 6 [0, 1])
     = Inr \<lparr> buffer_forward = [0], buffer_backward = [1, 0],
             forward = True, index = 0, velocity_numerator = 6, velocity_denominator = 6,
             superframe_size = None \<rparr>"
  by (simp add: init_buffer_def init_def slicer_of_def)

text \<open>
  Claim C2, amended.  Construction succeeds for every pair of slice sets, of equal length
  or not: the forward queue holds the forward slices, the backward queue the backward
  slices reversed, each at its own length.
\<close>

theorem init_buffer_always_succeeds:
  "\<exists>s. init_buffer f b = Inr s
     \<and> buffer_forward s = slices f \<and> buffer_backward s = rev (slices b)
     \<and> length (buffer_forward s) = length (slices f)
     \<and> length (buffer_backward s) = length (slices b)"
  by (simp add: init_buffer_def init_def)









text \<open>
  Claim C9.  Right after construction the direction is Forward, the index is 0, the
  numerator and the denominator of the velocity are both the superframe size of the
  forward slicer (so the velocity is 1 unless that size is 0, when reading it raises), and
  \<^verbatim>\<open>state\<close> is the first forward slice.  The velocity-driven step that the claim describes
  does not advance: \<^verbatim>\<open>step()\<close> reads \<^verbatim>\<open>self.superframe_size\<close>, which the constructor has not
  assigned, and raises \<^verbatim>\<open>AttributeError\<close>, leaving the buffer as constructed.
\<close>

theorem init_then_step_raises:
  "direction (init f b) = Forward
   \<and> index (init f b) = 0
   \<and> velocity_numerator (init f b) = slicer_superframe_size f
   \<and> velocity_denominator (init f b) = slicer_superframe_size f
   \<and> velocity (init f b) =
       (if slicer_superframe_size f = 0 then Inl ZeroDivisionError else Inr 1)
   \<and> state (init f b) = deque_head (slices f)
   \<and> step None (init f b) = (Inl AttributeError, init f b)"
  by (simp add: init_def velocity_def state_def step_def step_n_moves_def direction_def)

section \<open>The timeline generator: unsupported categories\<close>

text \<open>
  Claim C6.  A category other than \<^verbatim>\<open>"sinusoid"\<close> and \<^verbatim>\<open>"compound-sinusoid"\<close> makes the
  timeline generator fail, whatever the other arguments and whatever numpy computes: it
  raises \<^verbatim>\<open>NotImplementedError\<close>, the exception that the code uses for an unsupported
  waveform.
\<close>

theorem unsupported_category_raises:
  assumes "category \<noteq> ''sinusoid''" and "category \<noteq> ''compound-sinusoid''"
  shows "generate_timeline_function np sz len_lvb n category freq = Inl NotImplementedError"
  using assms by (simp add: generate_timeline_function_def)

theorem unsupported_category_raises_witness:
  "''square'' \<noteq> ''sinusoid'' \<and> ''square'' \<noteq> ''compound-sinusoid''
   \<and> generate_timeline_function quarter_period_numpy 6 50 10 ''square'' 1
       = Inl NotImplementedError"
  using unsupported_category_raises [of "''square''" quarter_period_numpy 6 50 10 1] by simp

text \<open>
  The two supported categories on the instance above: five points scaled by \<open>len_lvb - 1\<close>
  and by \<open>len_lvb\<close>, the negative one mirrored.
\<close>

lemma timeline_on_quarter_periods:
  "generate_timeline_function quarter_period_numpy 6 8 5 ''sinusoid'' 1 = Inr [0, 7, 0, 7, 0]"
  "generate_timeline_function quarter_period_numpy 6 8 5 ''compound-sinusoid'' 1
     = Inr [0, 8, 0, 8, 0]"
  by (simp_all add: generate_timeline_function_def locations_def quarter_period_numpy_def)

section \<open>The encoder configuration: shared defaults\<close>

lemma overrides_Nil: "overrides [] = Map.empty"
  by (simp add: overrides_def fun_eq_iff)

lemma overrides_Cons: "overrides (key # val # rest) = [key \<mapsto> PyStr val] ++ overrides rest"
  by (auto simp: overrides_def fun_eq_iff map_of_append map_add_def split: option.splits)

lemma overrides_Some:
  "map_of (rev (pairs cfg)) key = Some val \<Longrightarrow> overrides cfg key = Some (PyStr val)"
  by (simp add: overrides_def)

lemma overrides_None:
  "key \<notin> fst ` set (pairs cfg) \<Longrightarrow> overrides cfg key = None"
  by (simp add: overrides_def map_of_eq_None_iff)

lemma override_loop_Inr:
  "override_loop enc n cfg d = (Inr u, d') \<Longrightarrow> d' = d ++ overrides cfg"
proof (induction enc n cfg d rule: override_loop.induct)
  case (1 enc n d)
  then show ?case by (simp add: overrides_Nil)
next
  case (2 enc n key d)
  then show ?case by simp
next
  case (3 enc n key val rest d)
  from "3.prems" have c: "dict_get d key \<noteq> PyNone"
    and l: "override_loop enc n rest (d(key \<mapsto> PyStr val)) = (Inr u, d')"
    by (simp_all split: if_splits)
  from c have "\<not> dict_get d key = PyNone" by simp
  from "3.IH" [OF this l] have "d' = d(key \<mapsto> PyStr val) ++ overrides rest" .
  also have "\<dots> = d ++ ([key \<mapsto> PyStr val] ++ overrides rest)"
    by (auto simp: fun_eq_iff map_add_def split: option.splits)
  finally show ?case
    by (simp only: overrides_Cons)
qed


lemma construct_Inr:
  assumes "construct_encoder_config enc cfg opts = (Inr d, opts')"
  shows "\<exists>d0. opts enc = Some d0 \<and> d = d0 ++ overrides cfg \<and> opts' = opts(enc \<mapsto> d)"
proof (cases "opts enc")
  case None
  with assms show ?thesis by (simp add: construct_encoder_config_def)
next
  case (Some d0)
  obtain r d' where l: "override_loop enc (length cfg) cfg d0 = (r, d')"
    by (cases "override_loop enc (length cfg) cfg d0")
  with assms Some obtain u where "r = Inr u" and "d' = d" and "opts' = opts(enc \<mapsto> d)"
    by (cases r) (auto simp: construct_encoder_config_def)
  with l override_loop_Inr [of enc "length cfg" cfg d0 u d] Some show ?thesis
    by simp
qed

lemma construct_Nil:
  "opts enc = Some d \<Longrightarrow> construct_encoder_config enc [] opts = (Inr d, opts)"
  by (simp add: construct_encoder_config_def map_upd_triv)

text \<open>
  Claim C10.  \<^verbatim>\<open>construct_encoder_config\<close> writes the overrides into the shared dictionary
  of the encoder: after a call that returns, the table holds for the encoder the
  dictionary returned, which is the defaults with the overrides applied, and a later call
  with an empty list returns that dictionary, every overridden key at its override, not
  the defaults.  The same holds after a further call: the overrides of both calls are
  accumulated, those of the earlier call staying where the later call has not overridden
  them.
\<close>

theorem overrides_persist_in_shared_defaults:
  assumes "construct_encoder_config enc cfg1 opts = (Inr d1, opts1)"
      and "construct_encoder_config enc cfg2 opts1 = (Inr d2, opts2)"
  shows "\<exists>d0. opts enc = Some d0
     \<and> opts1 enc = Some d1 \<and> d1 = d0 ++ overrides cfg1
     \<and> construct_encoder_config enc [] opts1 = (Inr d1, opts1)
     \<and> (\<forall>key val. map_of (rev (pairs cfg1)) key = Some val \<longrightarrow> d1 key = Some (PyStr val))
     \<and> ((\<exists>key val. map_of (rev (pairs cfg1)) key = Some val \<and> d0 key \<noteq> Some (PyStr val))
          \<longrightarrow> d1 \<noteq> d0)
     \<and> opts2 enc = Some d2 \<and> d2 = d0 ++ overrides cfg1 ++ overrides cfg2
     \<and> construct_encoder_config enc [] opts2 = (Inr d2, opts2)
     \<and> (\<forall>key val. map_of (rev (pairs cfg1)) key = Some val \<and> key \<notin> fst ` set (pairs cfg2)
          \<longrightarrow> d2 key = Some (PyStr val))"
proof -
  from construct_Inr [OF assms(1)] obtain d0 where
    d0: "opts enc = Some d0" and d1: "d1 = d0 ++ overrides cfg1"
    and o1: "opts1 = opts(enc \<mapsto> d1)" by blast
  from o1 have s1: "opts1 enc = Some d1" by simp
  from construct_Inr [OF assms(2)] s1 have
    d2: "d2 = d1 ++ overrides cfg2" and o2: "opts2 = opts1(enc \<mapsto> d2)" by auto
  from o2 have s2: "opts2 enc = Some d2" by simp
  have k1: "d1 key = Some (PyStr val)" if "map_of (rev (pairs cfg1)) key = Some val" for key val
    by (simp add: d1 map_add_def overrides_Some [OF that])
  have k2: "d2 key = Some (PyStr val)"
    if "map_of (rev (pairs cfg1)) key = Some val" "key \<notin> fst ` set (pairs cfg2)" for key val
    by (simp add: d2 map_add_def k1 [OF that(1)] overrides_None [OF that(2)])
  have ne: "d1 \<noteq> d0"
    if "\<exists>key val. map_of (rev (pairs cfg1)) key = Some val \<and> d0 key \<noteq> Some (PyStr val)"
    using that k1 by auto
  have "d2 = d0 ++ overrides cfg1 ++ overrides cfg2"
    by (simp add: d2 d1)
  with d0 s1 d1 s2 construct_Nil [of opts1 enc d1, OF s1]
    construct_Nil [of opts2 enc d2, OF s2] k1 k2 ne show ?thesis
    by blast
qed

theorem overrides_persist_in_shared_defaults_witness:
  "construct_encoder_config ''libx264'' [''crf'', ''18''] example_options
     = (Inr [''preset'' \<mapsto> PyStr ''medium'', ''crf'' \<mapsto> PyStr ''18''],
        [''libx264'' \<mapsto> [''preset'' \<mapsto> PyStr ''medium'', ''crf'' \<mapsto> PyStr ''18'']])
   \<and> construct_encoder_config ''libx264'' []
        ([''libx264'' \<mapsto> [''preset'' \<mapsto> PyStr ''medium'', ''crf'' \<mapsto> PyStr ''18'']]
           :: string \<rightharpoonup> unit config)
     = (Inr [''preset'' \<mapsto> PyStr ''medium'', ''crf'' \<mapsto> PyStr ''18''],
        [''libx264'' \<mapsto> [''preset'' \<mapsto> PyStr ''medium'', ''crf'' \<mapsto> PyStr ''18'']])
   \<and> example_options ''libx264''
     = Some [''preset'' \<mapsto> PyStr ''medium'', ''crf'' \<mapsto> PyStr ''23'']"
proof -
  let ?d1 = "[''preset'' \<mapsto> PyStr ''medium'', ''crf'' \<mapsto> PyStr ''18''] :: unit config"
  have a: "construct_encoder_config ''libx264'' [''crf'', ''18''] example_options
     = (Inr ?d1, [''libx264'' \<mapsto> ?d1])"
    by (simp add: construct_encoder_config_def example_options_def dict_get_def)
  have b: "construct_encoder_config ''libx264'' [] [''libx264'' \<mapsto> ?d1]
     = (Inr ?d1, [''libx264'' \<mapsto> ?d1])"
    by (simp add: construct_encoder_config_def)
  from overrides_persist_in_shared_defaults [OF a b]
  have c: "construct_encoder_config ''libx264'' [] [''libx264'' \<mapsto> ?d1]
     = (Inr ?d1, [''libx264'' \<mapsto> ?d1])"
    by blast
  show ?thesis
    by (intro conjI a c) (simp add: example_options_def)
qed

section \<open>The persistence cache: one producer call per configuration\<close>













end
